theory Spec2Isabelle
  imports Main
begin

section \<open>The team builder of ReliefConnect\<close>

text \<open>
  A shallow embedding of the component \<^verbatim>\<open>TeamBuilder\<close>
  (\<^verbatim>\<open>src/components/TeamBuilder.tsx\<close>): its \<^verbatim>\<open>useState\<close> cells as a
  record, each event handler as a function from the state before the event to the
  state after it, and the toasts, the store request and the callback of
  \<^verbatim>\<open>handleCreateTeam\<close> as a list of effects returned beside the state.

  JavaScript strings are modelled as \<^typ>\<open>string\<close>; the characters of the model are
  the code units below \<open>0x100\<close>.
\<close>

subsection \<open>Data\<close>

text \<open>
  \<^verbatim>\<open>type Volunteer = Row & { skills?: string[]; email?: string; ... }\<close>. The
  component's logic reads the fields \<^verbatim>\<open>id\<close>, \<^verbatim>\<open>name\<close>, \<^verbatim>\<open>email\<close> and
  \<^verbatim>\<open>skills\<close> only. An optional field that is absent (\<^verbatim>\<open>undefined\<close> or
  \<^verbatim>\<open>null\<close>) is \<open>None\<close>.
\<close>

record volunteer =
  id_vol :: string
  name_vol :: string
  email :: "string option"
  skills :: "string list option"

text \<open>\<^verbatim>\<open>type Skill = Database['public']['Tables']['skills']['Row']\<close>\<close>

record skill =
  id_skill :: string
  name_skill :: string
  category :: string

text \<open>The thirteen \<^verbatim>\<open>useState\<close> cells of the component, with their initial values.\<close>

record state =
  volunteers :: "volunteer list"
  filteredVolunteers :: "volunteer list"
  selectedVolunteers :: "volunteer list"
  skills_catalog :: "skill list"
  teamName :: string
  teamDescription :: string
  leaderId :: "string option"
  requiredSkills :: "string list"
  location :: string
  loading :: bool
  saving :: bool
  searchTerm :: string
  filterSkill :: string

definition initial_state :: state where
  "initial_state =
     \<lparr>volunteers = [], filteredVolunteers = [], selectedVolunteers = [],
      skills_catalog = [], teamName = [], teamDescription = [], leaderId = None,
      requiredSkills = [], location = [], loading = True, saving = False,
      searchTerm = [], filterSkill = []\<rparr>"

text \<open>The component's props: \<^verbatim>\<open>incidentId?: string\<close> and whether the callback
  \<^verbatim>\<open>onTeamCreated\<close> was passed.\<close>

record props =
  incidentId :: "string option"
  onTeamCreated :: bool

text \<open>The row handed to \<^verbatim>\<open>supabase.from('teams').insert\<close>.\<close>

record team_insert =
  name :: string
  description :: string
  leader_id :: "string option"
  members :: "string list"
  skills_required :: "string list"
  active :: bool
  incident_id :: "string option"
  location_row :: "string option"

text \<open>What the store answers to the insert, \<^verbatim>\<open>{ data, error }\<close>: the ids of the
  rows it returns (\<open>None\<close> for \<^verbatim>\<open>null\<close>) and the error, if any.\<close>

record insert_response =
  data :: "string list option"
  error :: "string option"

text \<open>What the store answers to the two reads of \<^verbatim>\<open>fetchData\<close>: an error of
  either, or the two tables (\<open>None\<close> for \<^verbatim>\<open>null\<close>).\<close>

datatype fetch_result =
    Fetch_failed string
  | Fetched "volunteer list option" "skill list option"

text \<open>What a handler does beyond writing the state.\<close>

datatype effect =
    Toast_error string
  | Toast_success string
  | Console_error string
  | Insert team_insert
  | OnTeamCreated string

text \<open>The value \<^verbatim>\<open>calculateSkillCoverage\<close> returns.\<close>

record coverage =
  covered :: "string list"
  missing :: "string list"

subsection \<open>JavaScript built-ins the handlers use\<close>

text \<open>\<^verbatim>\<open>xs?.includes(x)\<close>: \<^verbatim>\<open>undefined\<close> (\<open>None\<close>) when \<open>xs\<close> is absent.\<close>

definition optional_includes :: "string list option \<Rightarrow> string \<Rightarrow> bool option" where
  "optional_includes xs x = (case xs of None \<Rightarrow> None | Some ys \<Rightarrow> Some (x \<in> set ys))"

text \<open>Truthiness of a value that is a boolean or \<^verbatim>\<open>undefined\<close>.\<close>

fun truthy :: "bool option \<Rightarrow> bool" where
  "truthy None = False"
| "truthy (Some b) = b"

text \<open>\<^verbatim>\<open>Array.prototype.some\<close>: stops at the first element whose callback value is
  truthy.\<close>

fun array_some :: "('a \<Rightarrow> bool option) \<Rightarrow> 'a list \<Rightarrow> bool" where
  "array_some f [] = False"
| "array_some f (x # xs) = (if truthy (f x) then True else array_some f xs)"

text \<open>The white space \<^verbatim>\<open>String.prototype.trim\<close> strips, among the code units
  below \<open>0x100\<close>: TAB, LF, VT, FF, CR, SP and NBSP.\<close>

definition isWhiteSpace :: "char \<Rightarrow> bool" where
  "isWhiteSpace c = ((of_char c :: nat) \<in> {9, 10, 11, 12, 13, 32, 160})"

definition trim :: "string \<Rightarrow> string" where
  "trim s = rev (dropWhile isWhiteSpace (rev (dropWhile isWhiteSpace s)))"

text \<open>\<^verbatim>\<open>String.prototype.toLowerCase\<close> on the code units below \<open>0x100\<close>: the
  capitals \<open>A\<close> to \<open>Z\<close> and \<open>0xC0\<close> to \<open>0xDE\<close> without \<open>0xD7\<close> move up by
  \<open>0x20\<close>.\<close>

definition toLowerCase_char :: "char \<Rightarrow> char" where
  "toLowerCase_char c =
     (let n = (of_char c :: nat)
      in if (65 \<le> n \<and> n \<le> 90) \<or> (192 \<le> n \<and> n \<le> 222 \<and> n \<noteq> 215)
         then char_of (n + 32) else c)"

definition toLowerCase :: "string \<Rightarrow> string" where
  "toLowerCase s = map toLowerCase_char s"

text \<open>\<^verbatim>\<open>String.prototype.includes\<close>: the second string occurs in the first.\<close>

fun string_includes :: "string \<Rightarrow> string \<Rightarrow> bool" where
  "string_includes [] t = (t = [])"
| "string_includes (c # cs) t = (take (length t) (c # cs) = t \<or> string_includes cs t)"

text \<open>\<^verbatim>\<open>x?.toLowerCase().includes(t)\<close>\<close>

definition optional_lower_includes :: "string option \<Rightarrow> string \<Rightarrow> bool option" where
  "optional_lower_includes x t =
     (case x of None \<Rightarrow> None | Some y \<Rightarrow> Some (string_includes (toLowerCase y) t))"

text \<open>\<^verbatim>\<open>xs || []\<close>\<close>

definition or_empty :: "'a list option \<Rightarrow> 'a list" where
  "or_empty xs = (case xs of None \<Rightarrow> [] | Some ys \<Rightarrow> ys)"

subsection \<open>Skill coverage\<close>

text \<open>
  \<^verbatim>\<open>
  const isSkillCovered = selectedVolunteers.some(v => v.skills?.includes(skillId));
  \<close>
\<close>

definition isSkillCovered :: "volunteer list \<Rightarrow> string \<Rightarrow> bool" where
  "isSkillCovered vs skillId = array_some (\<lambda>v. optional_includes (skills v) skillId) vs"

text \<open>
  The body of \<^verbatim>\<open>requiredSkills.forEach\<close>, run over the required skills in order;
  the accumulator holds the two arrays the callback pushes to.
\<close>

fun forEach_requiredSkills :: "volunteer list \<Rightarrow> string list \<Rightarrow> coverage \<Rightarrow> coverage" where
  "forEach_requiredSkills vs [] acc = acc"
| "forEach_requiredSkills vs (skillId # rest) acc =
     forEach_requiredSkills vs rest
       (if isSkillCovered vs skillId
        then acc\<lparr>covered := covered acc @ [skillId]\<rparr>
        else acc\<lparr>missing := missing acc @ [skillId]\<rparr>)"

text \<open>\<^verbatim>\<open>calculateSkillCoverage\<close> is a closure over the state: it reads
  \<^verbatim>\<open>requiredSkills\<close> and \<^verbatim>\<open>selectedVolunteers\<close>.\<close>

definition calculateSkillCoverage :: "state \<Rightarrow> coverage" where
  "calculateSkillCoverage s =
     forEach_requiredSkills (selectedVolunteers s) (requiredSkills s)
       \<lparr>covered = [], missing = []\<rparr>"

subsection \<open>Event handlers\<close>

text \<open>
  \<^verbatim>\<open>
  if (!selectedVolunteers.find(v => v.id === volunteer.id))
    setSelectedVolunteers([...selectedVolunteers, volunteer]);
  \<close>
\<close>

definition handleSelectVolunteer :: "volunteer \<Rightarrow> state \<Rightarrow> state" where
  "handleSelectVolunteer volunteer s =
     (case find (\<lambda>v. id_vol v = id_vol volunteer) (selectedVolunteers s) of
        None \<Rightarrow> s\<lparr>selectedVolunteers := selectedVolunteers s @ [volunteer]\<rparr>
      | Some _ \<Rightarrow> s)"

text \<open>
  \<^verbatim>\<open>
  setSelectedVolunteers(selectedVolunteers.filter(v => v.id !== volunteerId));
  if (leaderId === volunteerId) setLeaderId(null);
  \<close>
\<close>

definition handleRemoveVolunteer :: "string \<Rightarrow> state \<Rightarrow> state" where
  "handleRemoveVolunteer volunteerId s =
     (let s' = s\<lparr>selectedVolunteers :=
                   filter (\<lambda>v. id_vol v \<noteq> volunteerId) (selectedVolunteers s)\<rparr>
      in if leaderId s = Some volunteerId then s'\<lparr>leaderId := None\<rparr> else s')"

text \<open>\<^verbatim>\<open>setLeaderId(volunteerId)\<close>\<close>

definition handleSetLeader :: "string \<Rightarrow> state \<Rightarrow> state" where
  "handleSetLeader volunteerId s = s\<lparr>leaderId := Some volunteerId\<rparr>"

text \<open>
  \<^verbatim>\<open>
  if (requiredSkills.includes(skillId))
    setRequiredSkills(requiredSkills.filter(id => id !== skillId));
  else setRequiredSkills([...requiredSkills, skillId]);
  \<close>
\<close>

definition handleToggleSkill :: "string \<Rightarrow> state \<Rightarrow> state" where
  "handleToggleSkill skillId s =
     (if skillId \<in> set (requiredSkills s)
      then s\<lparr>requiredSkills := filter (\<lambda>i. i \<noteq> skillId) (requiredSkills s)\<rparr>
      else s\<lparr>requiredSkills := requiredSkills s @ [skillId]\<rparr>)"

text \<open>
  \<^verbatim>\<open>validateTeam\<close>: the three checks in the source's order, each with its toast.
  \<^verbatim>\<open>!teamName.trim()\<close> holds of the empty string; \<^verbatim>\<open>!leaderId\<close> holds of
  \<^verbatim>\<open>null\<close> and of the empty string.
\<close>

definition validateTeam :: "state \<Rightarrow> effect list \<times> bool" where
  "validateTeam s =
     (if trim (teamName s) = [] then ([Toast_error ''Team name is required''], False)
      else if length (selectedVolunteers s) = 0
        then ([Toast_error ''Please select at least one volunteer''], False)
      else if leaderId s = None \<or> leaderId s = Some []
        then ([Toast_error ''Please designate a team leader''], False)
      else ([], True))"

text \<open>\<^verbatim>\<open>x || null\<close> on a string that may be absent.\<close>

definition or_null :: "string option \<Rightarrow> string option" where
  "or_null x = (case x of None \<Rightarrow> None | Some y \<Rightarrow> (if y = [] then None else Some y))"

text \<open>The row \<^verbatim>\<open>handleCreateTeam\<close> inserts, built from the props and the state.\<close>

definition team_row :: "props \<Rightarrow> state \<Rightarrow> team_insert" where
  "team_row p s =
     \<lparr>name = teamName s,
      description = teamDescription s,
      leader_id = leaderId s,
      members = map id_vol (selectedVolunteers s),
      skills_required = requiredSkills s,
      active = True,
      incident_id = or_null (incidentId p),
      location_row = or_null (Some (location s))\<rparr>"

text \<open>The six setters under \<^verbatim>\<open>// Reset form\<close>.\<close>

definition reset_form :: "state \<Rightarrow> state" where
  "reset_form s =
     s\<lparr>teamName := [], teamDescription := [], leaderId := None,
       selectedVolunteers := [], requiredSkills := [], location := []\<rparr>"

text \<open>
  \<^verbatim>\<open>handleCreateTeam\<close>, given the answer \<open>r\<close> of the store to the insert. It
  returns at once when \<^verbatim>\<open>validateTeam\<close> fails. Otherwise it sets \<^verbatim>\<open>saving\<close>,
  sends the row, and then: on an error logs it and shows the failure toast; on a
  non-empty \<^verbatim>\<open>data\<close> shows the success toast, resets the form and calls
  \<^verbatim>\<open>onTeamCreated\<close> with the first row's id when the callback was passed; on an
  empty or absent \<^verbatim>\<open>data\<close> does nothing more. \<^verbatim>\<open>finally\<close> clears \<^verbatim>\<open>saving\<close>.
\<close>

definition handleCreateTeam :: "props \<Rightarrow> insert_response \<Rightarrow> state \<Rightarrow> effect list \<times> state" where
  "handleCreateTeam p r s =
     (case validateTeam s of
        (toasts, False) \<Rightarrow> (toasts, s)
      | (toasts, True) \<Rightarrow>
          (let s1 = s\<lparr>saving := True\<rparr>;
               request = [Insert (team_row p s)]
           in case error r of
                Some e \<Rightarrow>
                  (toasts @ request @ [Console_error e, Toast_error ''Failed to create team''],
                   s1\<lparr>saving := False\<rparr>)
              | None \<Rightarrow>
                  (case data r of
                     Some (teamId # _) \<Rightarrow>
                       (toasts @ request @ [Toast_success ''Team created successfully!'']
                          @ (if onTeamCreated p then [OnTeamCreated teamId] else []),
                        (reset_form s1)\<lparr>saving := False\<rparr>)
                   | _ \<Rightarrow> (toasts @ request, s1\<lparr>saving := False\<rparr>))))"

subsection \<open>Effects\<close>

text \<open>
  \<^verbatim>\<open>fetchData\<close>, given the answer of the store: it stores the two tables, or logs
  the error and shows a toast; \<^verbatim>\<open>finally\<close> clears \<^verbatim>\<open>loading\<close>.
\<close>

definition fetchData :: "fetch_result \<Rightarrow> state \<Rightarrow> effect list \<times> state" where
  "fetchData r s =
     (let s1 = s\<lparr>loading := True\<rparr>
      in case r of
           Fetch_failed e \<Rightarrow>
             ([Console_error e, Toast_error ''Failed to load volunteers and skills data''],
              s1\<lparr>loading := False\<rparr>)
         | Fetched volunteersData skillsData \<Rightarrow>
             ([], s1\<lparr>volunteers := or_empty volunteersData,
                     filteredVolunteers := or_empty volunteersData,
                     skills_catalog := or_empty skillsData,
                     loading := False\<rparr>))"

text \<open>
  The effect on \<^verbatim>\<open>[volunteers, searchTerm, filterSkill]\<close>: the volunteers whose
  name or email contains the search term, then those who hold the filter skill; an
  empty term or skill filters nothing.
\<close>

definition filterVolunteers :: "state \<Rightarrow> state" where
  "filterVolunteers s =
     (let results = volunteers s;
          results =
            (if searchTerm s \<noteq> []
             then (let lowerSearch = toLowerCase (searchTerm s)
                   in filter (\<lambda>vol. truthy (optional_lower_includes (Some (name_vol vol)) lowerSearch)
                                  \<or> truthy (optional_lower_includes (email vol) lowerSearch))
                        results)
             else results);
          results =
            (if filterSkill s \<noteq> []
             then filter (\<lambda>vol. truthy (optional_includes (skills vol) (filterSkill s))) results
             else results)
      in s\<lparr>filteredVolunteers := results\<rparr>)"

subsection \<open>Events\<close>

text \<open>
  Everything that writes the state: the four handlers above, the \<^verbatim>\<open>onChange\<close>
  setters of the five inputs, the create button with the store's answer, and the two
  effects. Each event is one atomic step. The rendered page offers fewer events than
  the model allows (no button while \<^verbatim>\<open>loading\<close>, the add button only for the
  filtered volunteers and disabled for a selected one, the create button disabled while
  \<^verbatim>\<open>saving\<close>): what holds after every sequence of events of the model holds after
  every sequence the page offers.
\<close>

datatype event =
    SelectVolunteer volunteer
  | RemoveVolunteer string
  | SetLeader string
  | ToggleSkill string
  | SetTeamName string
  | SetTeamDescription string
  | SetLocation string
  | SetSearchTerm string
  | SetFilterSkill string
  | CreateTeam insert_response
  | FetchData fetch_result
  | FilterVolunteers

fun ui_step :: "props \<Rightarrow> event \<Rightarrow> state \<Rightarrow> state" where
  "ui_step p (SelectVolunteer v) s = handleSelectVolunteer v s"
| "ui_step p (RemoveVolunteer i) s = handleRemoveVolunteer i s"
| "ui_step p (SetLeader i) s = handleSetLeader i s"
| "ui_step p (ToggleSkill i) s = handleToggleSkill i s"
| "ui_step p (SetTeamName x) s = s\<lparr>teamName := x\<rparr>"
| "ui_step p (SetTeamDescription x) s = s\<lparr>teamDescription := x\<rparr>"
| "ui_step p (SetLocation x) s = s\<lparr>location := x\<rparr>"
| "ui_step p (SetSearchTerm x) s = s\<lparr>searchTerm := x\<rparr>"
| "ui_step p (SetFilterSkill x) s = s\<lparr>filterSkill := x\<rparr>"
| "ui_step p (CreateTeam r) s = snd (handleCreateTeam p r s)"
| "ui_step p (FetchData r) s = snd (fetchData r s)"
| "ui_step p FilterVolunteers s = filterVolunteers s"

text \<open>The state after a sequence of events, oldest first.\<close>

fun run :: "props \<Rightarrow> event list \<Rightarrow> state \<Rightarrow> state" where
  "run p [] s = s"
| "run p (e # es) s = run p es (ui_step p e s)"

text \<open>
  The leader button is rendered once per entry of the selected list
  (\<^verbatim>\<open>renderVolunteerList(selectedVolunteers, true)\<close>) and passes that entry's id:
  a sequence of events is \<open>leader_from_selection\<close> when every \<open>SetLeader\<close> in it
  names a volunteer selected at that moment.
\<close>

fun leader_from_selection :: "props \<Rightarrow> event list \<Rightarrow> state \<Rightarrow> bool" where
  "leader_from_selection p [] s = True"
| "leader_from_selection p (SetLeader i # es) s =
     (i \<in> set (map id_vol (selectedVolunteers s))
      \<and> leader_from_selection p es (ui_step p (SetLeader i) s))"
| "leader_from_selection p (e # es) s = leader_from_selection p es (ui_step p e s)"

text \<open>The leader, when there is one, is one of the selected volunteers.\<close>

definition leader_selected :: "state \<Rightarrow> bool" where
  "leader_selected s =
     (case leaderId s of None \<Rightarrow> True
      | Some l \<Rightarrow> l \<in> set (map id_vol (selectedVolunteers s)))"

subsection \<open>Concrete inputs\<close>

text \<open>Two volunteers (the second without a \<^verbatim>\<open>skills\<close> field), props without an
  incident or a callback, and an answer of the store that returns the created row.\<close>

definition vol1 :: volunteer where
  "vol1 = \<lparr>id_vol = ''v1'', name_vol = ''Asha'', email = None, skills = Some [''First Aid'']\<rparr>"

definition vol2 :: volunteer where
  "vol2 = \<lparr>id_vol = ''v2'', name_vol = ''Bram'', email = None, skills = None\<rparr>"

definition no_props :: props where
  "no_props = \<lparr>incidentId = None, onTeamCreated = False\<rparr>"

definition created :: insert_response where
  "created = \<lparr>data = Some [''t1''], error = None\<rparr>"

section \<open>Properties of the skill coverage\<close>

lemma isSkillCovered_Nil: "isSkillCovered [] k = False"
  by (simp add: isSkillCovered_def)

lemma isSkillCovered_absent: "isSkillCovered (map (\<lambda>v. v\<lparr>skills := None\<rparr>) vs) k = False"
  by (induction vs) (simp_all add: isSkillCovered_def optional_includes_def)

text \<open>The loop appends to each array the required skills that belong to it, in order.\<close>

lemma forEach_requiredSkills_filter:
  "forEach_requiredSkills vs R acc =
     \<lparr>covered = covered acc @ filter (isSkillCovered vs) R,
      missing = missing acc @ filter (\<lambda>k. \<not> isSkillCovered vs k) R\<rparr>"
  by (induction R arbitrary: acc) simp_all

lemma calculateSkillCoverage_filter:
  "calculateSkillCoverage s =
     \<lparr>covered = filter (isSkillCovered (selectedVolunteers s)) (requiredSkills s),
      missing = filter (\<lambda>k. \<not> isSkillCovered (selectedVolunteers s) k) (requiredSkills s)\<rparr>"
  by (simp add: calculateSkillCoverage_def forEach_requiredSkills_filter)

text \<open>
  C1. For every list of required skills and every list of members (every state), the
  skill ids of \<open>covered\<close> and of \<open>missing\<close> together are exactly the required skill
  ids, and no skill id is in both: each required id is in exactly one of the two, and no
  other id is in either.
\<close>

theorem coverage_partitions_required:
  "set (covered (calculateSkillCoverage s)) \<union> set (missing (calculateSkillCoverage s))
     = set (requiredSkills s)
   \<and> set (covered (calculateSkillCoverage s)) \<inter> set (missing (calculateSkillCoverage s)) = {}"
  by (auto simp: calculateSkillCoverage_filter)

text \<open>
  C3. \<^verbatim>\<open>calculateSkillCoverage\<close> has a result on every input: for every state the
  pair of returned arrays is the partition of the required skills by
  \<open>isSkillCovered\<close>. Members whose \<^verbatim>\<open>skills\<close> field is absent are skipped by
  \<^verbatim>\<open>?.\<close>: when every member's field is absent, every required skill is missing. (The
  empty member list is the case \<open>selectedVolunteers s = []\<close> of the first conjunct.)
\<close>

theorem coverage_total:
  "(covered (calculateSkillCoverage s), missing (calculateSkillCoverage s))
     = partition (isSkillCovered (selectedVolunteers s)) (requiredSkills s)
   \<and> calculateSkillCoverage
       (s\<lparr>selectedVolunteers := map (\<lambda>v. v\<lparr>skills := None\<rparr>) (selectedVolunteers s)\<rparr>)
     = \<lparr>covered = [], missing = requiredSkills s\<rparr>"
  by (simp add: calculateSkillCoverage_filter isSkillCovered_absent comp_def)

text \<open>
  C4. With no member selected, every required skill is missing and none is covered:
  \<open>missing\<close> is the list of required skills itself. (A state whose member list is
  empty is any state with that cell set to the empty list.)
\<close>

theorem coverage_no_members:
  "calculateSkillCoverage (s\<lparr>selectedVolunteers := []\<rparr>)
     = \<lparr>covered = [], missing = requiredSkills s\<rparr>"
  by (simp add: calculateSkillCoverage_filter isSkillCovered_Nil)

text \<open>
  C5. With no required skill, \<open>covered\<close> and \<open>missing\<close> are both empty, whoever the
  members are. (A state without required skills is any state with that cell set to the
  empty list.)
\<close>

theorem coverage_no_required:
  "calculateSkillCoverage (s\<lparr>requiredSkills := []\<rparr>) = \<lparr>covered = [], missing = []\<rparr>"
  by (simp add: calculateSkillCoverage_def)

text \<open>
  C6. The two scenarios. Required \<open>First Aid\<close> and \<open>Driving\<close>, one member with
  \<open>[First Aid]\<close> and one with \<open>[Driving, CPR]\<close>: both are covered, none is missing.
  Required \<open>Translation\<close>, one member with \<open>[First Aid]\<close>: none is covered,
  \<open>Translation\<close> is missing. The other fields of the members and of the state are
  arbitrary.
\<close>

theorem coverage_scenarios:
  "calculateSkillCoverage
     (s\<lparr>requiredSkills := [''First Aid'', ''Driving''],
        selectedVolunteers := [v\<lparr>skills := Some [''First Aid'']\<rparr>,
                               w\<lparr>skills := Some [''Driving'', ''CPR'']\<rparr>]\<rparr>)
     = \<lparr>covered = [''First Aid'', ''Driving''], missing = []\<rparr>
   \<and> calculateSkillCoverage
       (s\<lparr>requiredSkills := [''Translation''],
          selectedVolunteers := [v\<lparr>skills := Some [''First Aid'']\<rparr>]\<rparr>)
     = \<lparr>covered = [], missing = [''Translation'']\<rparr>"
  by (simp add: calculateSkillCoverage_def isSkillCovered_def optional_includes_def)

text \<open>
  C7. \<^verbatim>\<open>calculateSkillCoverage\<close> is a function of the required skills and the
  members alone: two invocations in states that agree on these two cells return the
  same value, whatever the other cells hold.
\<close>

theorem coverage_deterministic:
  "requiredSkills s = requiredSkills s' \<Longrightarrow> selectedVolunteers s = selectedVolunteers s'
   \<Longrightarrow> calculateSkillCoverage s = calculateSkillCoverage s'"
  by (simp add: calculateSkillCoverage_def)

theorem coverage_deterministic_witness:
  "requiredSkills (initial_state\<lparr>requiredSkills := [''First Aid'', ''Driving''],
                                 selectedVolunteers := [vol1, vol2]\<rparr>)
     = requiredSkills (initial_state\<lparr>requiredSkills := [''First Aid'', ''Driving''],
                                     selectedVolunteers := [vol1, vol2],
                                     teamName := ''Alpha'', leaderId := Some ''v1''\<rparr>)
   \<and> selectedVolunteers (initial_state\<lparr>requiredSkills := [''First Aid'', ''Driving''],
                                       selectedVolunteers := [vol1, vol2]\<rparr>)
     = selectedVolunteers (initial_state\<lparr>requiredSkills := [''First Aid'', ''Driving''],
                                         selectedVolunteers := [vol1, vol2],
                                         teamName := ''Alpha'', leaderId := Some ''v1''\<rparr>)
   \<and> calculateSkillCoverage (initial_state\<lparr>requiredSkills := [''First Aid'', ''Driving''],
                                           selectedVolunteers := [vol1, vol2]\<rparr>)
     = calculateSkillCoverage (initial_state\<lparr>requiredSkills := [''First Aid'', ''Driving''],
                                             selectedVolunteers := [vol1, vol2],
                                             teamName := ''Alpha'', leaderId := Some ''v1''\<rparr>)
   \<and> calculateSkillCoverage (initial_state\<lparr>requiredSkills := [''First Aid'', ''Driving''],
                                           selectedVolunteers := [vol1, vol2]\<rparr>)
     = \<lparr>covered = [''First Aid''], missing = [''Driving'']\<rparr>"
  using coverage_deterministic
    [of "initial_state\<lparr>requiredSkills := [''First Aid'', ''Driving''],
                       selectedVolunteers := [vol1, vol2]\<rparr>"
        "initial_state\<lparr>requiredSkills := [''First Aid'', ''Driving''],
                       selectedVolunteers := [vol1, vol2],
                       teamName := ''Alpha'', leaderId := Some ''v1''\<rparr>"]
  by (simp add: calculateSkillCoverage_def isSkillCovered_def optional_includes_def
      vol1_def vol2_def initial_state_def)

section \<open>Properties of the handlers\<close>

lemmas run_defs =
  initial_state_def handleSelectVolunteer_def handleRemoveVolunteer_def handleSetLeader_def
  handleToggleSkill_def vol1_def vol2_def no_props_def created_def leader_selected_def

lemmas create_defs =
  handleCreateTeam_def validateTeam_def team_row_def reset_form_def or_null_def
  trim_def isWhiteSpace_def Let_def

text \<open>
  C8. For every state and every volunteer id \<open>v\<close>, \<^verbatim>\<open>handleSetLeader(v)\<close> makes
  \<open>v\<close> the leader id, whatever the leader was before, and changes nothing else: the
  members, the required skills, the name, the description and the location are as
  before, and putting the old leader back gives the old state. Setting a leader twice
  leaves the second one only.
\<close>

theorem set_leader_frame:
  "leaderId (handleSetLeader v s) = Some v
   \<and> selectedVolunteers (handleSetLeader v s) = selectedVolunteers s
   \<and> requiredSkills (handleSetLeader v s) = requiredSkills s
   \<and> teamName (handleSetLeader v s) = teamName s
   \<and> teamDescription (handleSetLeader v s) = teamDescription s
   \<and> location (handleSetLeader v s) = location s
   \<and> (handleSetLeader v s)\<lparr>leaderId := leaderId s\<rparr> = s
   \<and> handleSetLeader v (handleSetLeader w s) = handleSetLeader v s"
  by (simp add: handleSetLeader_def)

subsection \<open>What creating a team does to the state\<close>

lemma handleCreateTeam_state:
  "snd (handleCreateTeam p r s) = s
   \<or> snd (handleCreateTeam p r s) = s\<lparr>saving := False\<rparr>
   \<or> snd (handleCreateTeam p r s) = (reset_form s)\<lparr>saving := False\<rparr>"
  by (simp add: handleCreateTeam_def reset_form_def validateTeam_def Let_def
      split: option.splits list.splits)

subsection \<open>The leader is a selected volunteer\<close>

lemma leader_selected_iff:
  "leader_selected s \<longleftrightarrow>
     (\<forall>l. leaderId s = Some l \<longrightarrow> l \<in> id_vol ` set (selectedVolunteers s))"
  by (simp add: leader_selected_def split: option.splits)

lemma leader_selected_initial: "leader_selected initial_state"
  by (simp add: leader_selected_def initial_state_def)

lemma leader_selected_CreateTeam:
  "leader_selected s \<Longrightarrow> leader_selected (snd (handleCreateTeam p r s))"
  using handleCreateTeam_state [of p r s]
  by (auto simp: leader_selected_iff reset_form_def)

lemma leader_selected_Select:
  "leader_selected s \<Longrightarrow> leader_selected (handleSelectVolunteer v s)"
  by (auto simp: leader_selected_iff handleSelectVolunteer_def split: option.splits)

lemma leader_selected_Remove:
  "leader_selected s \<Longrightarrow> leader_selected (handleRemoveVolunteer i s)"
  by (auto simp: leader_selected_iff handleRemoveVolunteer_def Let_def)

lemma leader_selected_SetLeader:
  "i \<in> set (map id_vol (selectedVolunteers s)) \<Longrightarrow> leader_selected (handleSetLeader i s)"
  by (simp add: leader_selected_iff handleSetLeader_def)

lemma leader_selected_Toggle:
  "leader_selected s \<Longrightarrow> leader_selected (handleToggleSkill i s)"
  by (simp add: leader_selected_iff handleToggleSkill_def)

lemma leader_from_selection_Cons:
  "leader_from_selection p (e # es) s \<longleftrightarrow>
     leader_from_selection p [e] s \<and> leader_from_selection p es (ui_step p e s)"
  by (cases e) simp_all

lemma leader_selected_step:
  "leader_selected s \<Longrightarrow> leader_from_selection p [e] s \<Longrightarrow> leader_selected (ui_step p e s)"
proof (cases e)
  case (SetLeader i)
  assume "leader_from_selection p [e] s"
  with SetLeader show ?thesis by (simp add: leader_selected_SetLeader)
next
  case (CreateTeam r)
  assume "leader_selected s"
  with CreateTeam show ?thesis by (simp add: leader_selected_CreateTeam)
qed (simp_all add: leader_selected_Select leader_selected_Remove leader_selected_Toggle,
     simp_all add: leader_selected_iff fetchData_def filterVolunteers_def Let_def
       split: fetch_result.splits)

lemma leader_selected_run:
  "leader_selected s \<Longrightarrow> leader_from_selection p es s \<Longrightarrow> leader_selected (run p es s)"
proof (induction es arbitrary: s)
  case Nil
  then show ?case by simp
next
  case (Cons e es)
  from Cons.prems(2) have one: "leader_from_selection p [e] s"
    and rest: "leader_from_selection p es (ui_step p e s)"
    using leader_from_selection_Cons [of p e es s] by simp_all
  from Cons.prems(1) one have "leader_selected (ui_step p e s)"
    by (rule leader_selected_step)
  with rest have "leader_selected (run p es (ui_step p e s))"
    by (rule Cons.IH [rotated])
  then show ?case by simp
qed

lemma removing_leader_clears:
  "leaderId s = Some i \<Longrightarrow> leaderId (handleRemoveVolunteer i s) = None"
  by (simp add: handleRemoveVolunteer_def Let_def)

text \<open>Without the restriction on \<open>SetLeader\<close> the leader need not be selected.\<close>

lemma unselected_leader_breaks:
  "\<not> leader_selected (run no_props [SelectVolunteer vol1, SetLeader ''v2''] initial_state)"
  by (simp add: run_defs)

text \<open>
  C9. From the initial state, after any sequence of events in which every
  \<^verbatim>\<open>handleSetLeader\<close> is invoked with the id of a volunteer selected at that moment,
  the leader id is \<^verbatim>\<open>null\<close> or the id of a selected volunteer. Each single event
  preserves this, from any state that has it. And \<^verbatim>\<open>handleRemoveVolunteer\<close> of the
  current leader clears the leader id.
\<close>

theorem leader_invariant:
  "(leader_from_selection p es initial_state \<longrightarrow> leader_selected (run p es initial_state))
   \<and> (leader_selected s \<longrightarrow> leader_from_selection p [e] s \<longrightarrow> leader_selected (ui_step p e s))
   \<and> (leaderId s = Some i \<longrightarrow> leaderId (handleRemoveVolunteer i s) = None)"
  using leader_selected_run [OF leader_selected_initial, of p es]
  by (simp add: leader_selected_step removing_leader_clears)

theorem leader_invariant_witness:
  "leader_from_selection no_props
     [SelectVolunteer vol1, SelectVolunteer vol2, SetLeader ''v2'', RemoveVolunteer ''v1'']
     initial_state
   \<and> leader_selected (run no_props
        [SelectVolunteer vol1, SelectVolunteer vol2, SetLeader ''v2'', RemoveVolunteer ''v1'']
        initial_state)
   \<and> leaderId (run no_props
        [SelectVolunteer vol1, SelectVolunteer vol2, SetLeader ''v2'', RemoveVolunteer ''v1'']
        initial_state) = Some ''v2''
   \<and> leader_selected (run no_props [SelectVolunteer vol1, SetLeader ''v1''] initial_state)
   \<and> leader_from_selection no_props [RemoveVolunteer ''v1'']
        (run no_props [SelectVolunteer vol1, SetLeader ''v1''] initial_state)
   \<and> leader_selected (ui_step no_props (RemoveVolunteer ''v1'')
        (run no_props [SelectVolunteer vol1, SetLeader ''v1''] initial_state))
   \<and> leaderId (run no_props [SelectVolunteer vol1, SetLeader ''v1''] initial_state) = Some ''v1''
   \<and> leaderId (handleRemoveVolunteer ''v1''
        (run no_props [SelectVolunteer vol1, SetLeader ''v1''] initial_state)) = None"
  using leader_invariant
    [of no_props
        "[SelectVolunteer vol1, SelectVolunteer vol2, SetLeader ''v2'', RemoveVolunteer ''v1'']"
        "run no_props [SelectVolunteer vol1, SetLeader ''v1''] initial_state"
        "RemoveVolunteer ''v1''" "''v1''"]
  by (simp add: run_defs)

subsection \<open>No volunteer is selected twice\<close>

lemma distinct_Select:
  "distinct (map id_vol (selectedVolunteers s))
   \<Longrightarrow> distinct (map id_vol (selectedVolunteers (handleSelectVolunteer v s)))"
  by (auto simp: handleSelectVolunteer_def find_None_iff split: option.splits)

lemma distinct_Remove:
  "distinct (map id_vol (selectedVolunteers s))
   \<Longrightarrow> distinct (map id_vol (selectedVolunteers (handleRemoveVolunteer i s)))"
  by (simp add: handleRemoveVolunteer_def Let_def distinct_map_filter)

lemma distinct_CreateTeam:
  "distinct (map id_vol (selectedVolunteers s))
   \<Longrightarrow> distinct (map id_vol (selectedVolunteers (snd (handleCreateTeam p r s))))"
  using handleCreateTeam_state [of p r s]
  by (auto simp: reset_form_def)

lemma distinct_step:
  "distinct (map id_vol (selectedVolunteers s))
   \<Longrightarrow> distinct (map id_vol (selectedVolunteers (ui_step p e s)))"
  by (cases e)
    (simp_all add: distinct_Select distinct_Remove distinct_CreateTeam handleSetLeader_def
      handleToggleSkill_def fetchData_def filterVolunteers_def Let_def
      split: fetch_result.splits)

lemma distinct_run:
  "distinct (map id_vol (selectedVolunteers s))
   \<Longrightarrow> distinct (map id_vol (selectedVolunteers (run p es s)))"
  by (induction es arbitrary: s) (simp_all add: distinct_step)

lemma select_noop:
  "id_vol v \<in> set (map id_vol (selectedVolunteers s)) \<Longrightarrow> handleSelectVolunteer v s = s"
  by (auto simp: handleSelectVolunteer_def find_None_iff split: option.splits)

text \<open>
  C10. From the initial state, after any sequence of events, no two selected
  volunteers have the same id. Each single event, a select and a remove among them,
  keeps the ids distinct from any state where they are. And \<^verbatim>\<open>handleSelectVolunteer\<close>
  of a volunteer whose id is already selected leaves the state as it is.
\<close>

theorem selection_distinct:
  "distinct (map id_vol (selectedVolunteers (run p es initial_state)))
   \<and> (distinct (map id_vol (selectedVolunteers s)) \<longrightarrow>
        distinct (map id_vol (selectedVolunteers (ui_step p e s))))
   \<and> (id_vol v \<in> set (map id_vol (selectedVolunteers s)) \<longrightarrow> handleSelectVolunteer v s = s)"
  using distinct_run [of initial_state p es]
  by (simp add: distinct_step select_noop initial_state_def)

theorem selection_distinct_witness:
  "selectedVolunteers (run no_props [SelectVolunteer vol1, SelectVolunteer vol2] initial_state)
     = [vol1, vol2]
   \<and> distinct (map id_vol (selectedVolunteers
        (run no_props [SelectVolunteer vol1, SelectVolunteer vol2] initial_state)))
   \<and> distinct (map id_vol (selectedVolunteers
        (ui_step no_props (SelectVolunteer (vol1\<lparr>name_vol := ''Other''\<rparr>))
           (run no_props [SelectVolunteer vol1, SelectVolunteer vol2] initial_state))))
   \<and> id_vol (vol1\<lparr>name_vol := ''Other''\<rparr>) \<in> set (map id_vol (selectedVolunteers
        (run no_props [SelectVolunteer vol1, SelectVolunteer vol2] initial_state)))
   \<and> handleSelectVolunteer (vol1\<lparr>name_vol := ''Other''\<rparr>)
        (run no_props [SelectVolunteer vol1, SelectVolunteer vol2] initial_state)
     = run no_props [SelectVolunteer vol1, SelectVolunteer vol2] initial_state"
  using selection_distinct
    [of no_props "[SelectVolunteer vol1, SelectVolunteer vol2]"
        "run no_props [SelectVolunteer vol1, SelectVolunteer vol2] initial_state"
        "SelectVolunteer (vol1\<lparr>name_vol := ''Other''\<rparr>)"
        "vol1\<lparr>name_vol := ''Other''\<rparr>"]
  by (simp add: run_defs)

subsection \<open>Validation before the insert\<close>

lemma trim_Nil: "trim [] = []"
  by (simp add: trim_def)

lemma validateTeam_rejects:
  "trim (teamName s) = [] \<or> selectedVolunteers s = [] \<or> leaderId s = None \<or> leaderId s = Some []
   \<Longrightarrow> \<exists>msg. validateTeam s = ([Toast_error msg], False)"
  by (auto simp: validateTeam_def)

lemma handleCreateTeam_rejects:
  "trim (teamName s) = [] \<or> selectedVolunteers s = [] \<or> leaderId s = None \<or> leaderId s = Some []
   \<Longrightarrow> \<exists>msg. handleCreateTeam p r s = ([Toast_error msg], s)"
  using validateTeam_rejects [of s] by (auto simp: handleCreateTeam_def)

lemma handleCreateTeam_Insert:
  assumes "Insert row \<in> set (fst (handleCreateTeam p r s))"
  shows "row = team_row p s" and "trim (teamName s) \<noteq> []" and "selectedVolunteers s \<noteq> []"
    and "\<exists>l. leaderId s = Some l \<and> l \<noteq> []"
proof -
  have ok: "\<not> (trim (teamName s) = [] \<or> selectedVolunteers s = [] \<or> leaderId s = None
              \<or> leaderId s = Some [])"
  proof
    assume "trim (teamName s) = [] \<or> selectedVolunteers s = [] \<or> leaderId s = None
              \<or> leaderId s = Some []"
    then obtain msg where "handleCreateTeam p r s = ([Toast_error msg], s)"
      using handleCreateTeam_rejects by blast
    with assms show False by simp
  qed
  then show "trim (teamName s) \<noteq> []" and "selectedVolunteers s \<noteq> []"
    and "\<exists>l. leaderId s = Some l \<and> l \<noteq> []" by auto
  from ok have "validateTeam s = ([], True)" by (simp add: validateTeam_def)
  with assms show "row = team_row p s"
    by (auto simp: handleCreateTeam_def Let_def split: option.splits list.splits if_splits)
qed

text \<open>
  C2. In every state the component reaches from the initial state (every
  \<^verbatim>\<open>handleSetLeader\<close> being invoked by the leader button of a selected volunteer),
  \<^verbatim>\<open>handleCreateTeam\<close> sends the insert only when the team name is non-empty, the
  member list is non-empty and a leader is designated who is one of the members; the
  row it sends is built from the state, so its leader is among its members. When any of
  the three fails, the outcome is one error toast and nothing else: no insert is sent,
  and the state is as before.
\<close>

theorem create_team_validation:
  assumes "leader_from_selection p es initial_state"
  shows
    "(Insert row \<in> set (fst (handleCreateTeam p r (run p es initial_state))) \<longrightarrow>
        teamName (run p es initial_state) \<noteq> []
        \<and> selectedVolunteers (run p es initial_state) \<noteq> []
        \<and> (\<exists>l. leaderId (run p es initial_state) = Some l
               \<and> l \<in> set (map id_vol (selectedVolunteers (run p es initial_state))))
        \<and> row = team_row p (run p es initial_state)
        \<and> (\<exists>l. leader_id row = Some l \<and> l \<in> set (members row)))
     \<and> (teamName (run p es initial_state) = []
         \<or> selectedVolunteers (run p es initial_state) = []
         \<or> \<not> (\<exists>l. leaderId (run p es initial_state) = Some l
                  \<and> l \<in> set (map id_vol (selectedVolunteers (run p es initial_state)))) \<longrightarrow>
        (\<exists>msg. handleCreateTeam p r (run p es initial_state)
                 = ([Toast_error msg], run p es initial_state))
        \<and> (\<forall>row'. Insert row' \<notin> set (fst (handleCreateTeam p r (run p es initial_state))))
        \<and> snd (handleCreateTeam p r (run p es initial_state)) = run p es initial_state)"
proof -
  let ?s = "run p es initial_state"
  from assms have sel: "leader_selected ?s"
    by (rule leader_selected_run [OF leader_selected_initial])
  have sent: "teamName ?s \<noteq> [] \<and> selectedVolunteers ?s \<noteq> []
      \<and> (\<exists>l. leaderId ?s = Some l \<and> l \<in> set (map id_vol (selectedVolunteers ?s)))
      \<and> row = team_row p ?s \<and> (\<exists>l. leader_id row = Some l \<and> l \<in> set (members row))"
    if ins: "Insert row \<in> set (fst (handleCreateTeam p r ?s))"
  proof -
    from handleCreateTeam_Insert(2) [OF ins] have name: "teamName ?s \<noteq> []"
      by (auto simp: trim_Nil)
    from handleCreateTeam_Insert(4) [OF ins] obtain l where l: "leaderId ?s = Some l"
      by blast
    with sel have mem: "l \<in> set (map id_vol (selectedVolunteers ?s))"
      by (simp add: leader_selected_def)
    from handleCreateTeam_Insert(1) [OF ins] have row: "row = team_row p ?s" .
    from l mem row have "\<exists>l. leader_id row = Some l \<and> l \<in> set (members row)"
      by (simp add: team_row_def)
    with name handleCreateTeam_Insert(3) [OF ins] l mem row show ?thesis by blast
  qed
  have rejected: "(\<exists>msg. handleCreateTeam p r ?s = ([Toast_error msg], ?s))
      \<and> (\<forall>row'. Insert row' \<notin> set (fst (handleCreateTeam p r ?s)))
      \<and> snd (handleCreateTeam p r ?s) = ?s"
    if bad: "teamName ?s = [] \<or> selectedVolunteers ?s = []
      \<or> \<not> (\<exists>l. leaderId ?s = Some l \<and> l \<in> set (map id_vol (selectedVolunteers ?s)))"
  proof -
    from sel have "\<forall>l. leaderId ?s = Some l \<longrightarrow> l \<in> set (map id_vol (selectedVolunteers ?s))"
      by (simp add: leader_selected_def split: option.splits)
    with bad have "trim (teamName ?s) = [] \<or> selectedVolunteers ?s = [] \<or> leaderId ?s = None
        \<or> leaderId ?s = Some []"
      by (cases "leaderId ?s") (auto simp: trim_Nil)
    then obtain msg where "handleCreateTeam p r ?s = ([Toast_error msg], ?s)"
      using handleCreateTeam_rejects by blast
    then show ?thesis by simp
  qed
  from sent rejected show ?thesis by blast
qed

text \<open>
  The two rejections of the specification, each in a state the component reaches (an
  empty name with one member; the name \<open>Alpha\<close>, two members and no leader), and a
  team that is sent: its leader \<open>v2\<close> was designated among the selected volunteers.
\<close>

theorem create_team_validation_witness:
  "leader_from_selection no_props [SelectVolunteer vol1] initial_state
   \<and> teamName (run no_props [SelectVolunteer vol1] initial_state) = []
   \<and> map id_vol (selectedVolunteers (run no_props [SelectVolunteer vol1] initial_state)) = [''v1'']
   \<and> handleCreateTeam no_props created (run no_props [SelectVolunteer vol1] initial_state)
     = ([Toast_error ''Team name is required''], run no_props [SelectVolunteer vol1] initial_state)
   \<and> leader_from_selection no_props
        [SetTeamName ''Alpha'', SelectVolunteer vol1, SelectVolunteer vol2] initial_state
   \<and> leaderId (run no_props
        [SetTeamName ''Alpha'', SelectVolunteer vol1, SelectVolunteer vol2] initial_state) = None
   \<and> handleCreateTeam no_props created
        (run no_props [SetTeamName ''Alpha'', SelectVolunteer vol1, SelectVolunteer vol2]
           initial_state)
     = ([Toast_error ''Please designate a team leader''],
        run no_props [SetTeamName ''Alpha'', SelectVolunteer vol1, SelectVolunteer vol2]
          initial_state)
   \<and> leader_from_selection no_props
        [SetTeamName ''Alpha'', SelectVolunteer vol1, SelectVolunteer vol2, SetLeader ''v2'']
        initial_state
   \<and> Insert \<lparr>name = ''Alpha'', description = [], leader_id = Some ''v2'',
              members = [''v1'', ''v2''], skills_required = [], active = True,
              incident_id = None, location_row = None\<rparr>
       \<in> set (fst (handleCreateTeam no_props created
            (run no_props
               [SetTeamName ''Alpha'', SelectVolunteer vol1, SelectVolunteer vol2,
                SetLeader ''v2'']
               initial_state)))
   \<and> leaderId (run no_props
        [SetTeamName ''Alpha'', SelectVolunteer vol1, SelectVolunteer vol2, SetLeader ''v2'']
        initial_state) = Some ''v2''
   \<and> ''v2'' \<in> set [''v1'', ''v2'']"
proof -
  have a: "leader_from_selection no_props [SelectVolunteer vol1] initial_state"
    by (simp add: run_defs)
  have b: "leader_from_selection no_props
        [SetTeamName ''Alpha'', SelectVolunteer vol1, SelectVolunteer vol2] initial_state"
    by (simp add: run_defs)
  have c: "leader_from_selection no_props
        [SetTeamName ''Alpha'', SelectVolunteer vol1, SelectVolunteer vol2, SetLeader ''v2'']
        initial_state"
    by (simp add: run_defs)
  show ?thesis
    using a b c
      create_team_validation [OF a, of _ created]
      create_team_validation [OF b, of _ created]
      create_team_validation [OF c,
        of "\<lparr>name = ''Alpha'', description = [], leader_id = Some ''v2'',
             members = [''v1'', ''v2''], skills_required = [], active = True,
             incident_id = None, location_row = None\<rparr>" created]
    by (simp add: run_defs create_defs)
qed

end
